theory Spec2Isabelle
  imports Main
begin

section \<open>Python values, dictionaries and exceptions\<close>

text \<open>
  The module \<^verbatim>\<open>request.py\<close> is dynamically typed. The values that flow through it are
  modelled by one datatype. Dictionaries are association lists in insertion order with
  Python's update discipline: assigning an existing key keeps its position, a new key
  goes to the end.
\<close>

datatype pyval =
    PNone
  | PBool bool
  | PInt int
  | PStr string
  | PDict "(string \<times> pyval) list"

type_synonym 'v dict = "(string \<times> 'v) list"

fun dict_set :: "string \<Rightarrow> 'v \<Rightarrow> 'v dict \<Rightarrow> 'v dict" where
  "dict_set k v [] = [(k, v)]"
| "dict_set k v ((k', v') # kvs) =
     (if k' = k then (k, v) # kvs else (k', v') # dict_set k v kvs)"

definition dict_get :: "'v dict \<Rightarrow> string \<Rightarrow> 'v \<Rightarrow> 'v" where
  "dict_get d k dflt = (case map_of d k of None \<Rightarrow> dflt | Some v \<Rightarrow> v)"

definition has_key :: "'v dict \<Rightarrow> string \<Rightarrow> bool" where
  "has_key d k = (case map_of d k of None \<Rightarrow> False | Some v \<Rightarrow> True)"

text \<open>
  A response of the HTTP library, reduced to the two attributes the module and its
  specification speak about.
\<close>

record response =
  status_code :: int
  content :: string

text \<open>
  Exceptions are values. \<open>IndexError\<close>, \<open>KeyError\<close>, \<open>ValueError\<close> and \<open>TypeError\<close> are
  Python's built-in exceptions; \<open>HTTPError\<close> is the exception of the HTTP library's
  \<^verbatim>\<open>Response.raise_for_status\<close> and carries the response (status and body);
  \<open>Raised\<close> stands for any exception raised by code the module calls but does not own
  (a converter, the session, the wrapped method). \<open>NotModelled\<close> is not a Python
  exception: it marks the use of a feature that is left out of the model below (parts of
  \<^verbatim>\<open>str.format\<close>, the text of a dictionary), and no statement is made about such
  uses.
\<close>

datatype error =
    IndexError
  | KeyError
  | ValueError
  | TypeError
  | HTTPError response
  | Raised string
  | NotModelled

section \<open>The base client\<close>

text \<open>
  \<^verbatim>\<open>from os.path import join as urljoin\<close>: the function called \<open>urljoin\<close> in the module
  is the path join of the operating system, here the POSIX one with two arguments
  (\<^verbatim>\<open>posixpath.join(a, b)\<close>): a second component that starts with the separator
  replaces the first; otherwise the two are concatenated, with a separator in between
  unless the first is empty or already ends in one.
\<close>

fun startswith_sep :: "string \<Rightarrow> bool" where
  "startswith_sep [] = False"
| "startswith_sep (c # cs) = (c = CHR ''/'')"

definition endswith_sep :: "string \<Rightarrow> bool" where
  "endswith_sep s = startswith_sep (rev s)"

definition urljoin :: "string \<Rightarrow> string \<Rightarrow> string" where
  "urljoin a b =
     (if startswith_sep b then b
      else if a = [] \<or> endswith_sep a then a @ b
      else a @ ''/'' @ b)"

text \<open>
  One call of \<^verbatim>\<open>Session.request(method, url, *args, **kwargs)\<close>, as the session
  receives it.
\<close>

record session_call =
  call_method :: string
  call_url :: string
  call_args :: "pyval list"
  call_kwargs :: "pyval dict"

text \<open>
  A client is its configured \<open>server\<close>, the session it inherits from (a parameter: the
  answer, or the exception, that \<^verbatim>\<open>Session.request\<close> gives to a call) and the calls
  made to that session so far, oldest first.
\<close>

record client =
  server :: string
  session :: "session_call \<Rightarrow> error + response"
  session_calls :: "session_call list"

text \<open>
  \<^verbatim>\<open>Response.raise_for_status\<close> of the HTTP library raises \<open>HTTPError\<close> for a client
  error (400 to 499) or a server error (500 to 599) and returns otherwise.
\<close>

definition raise_for_status :: "response \<Rightarrow> error + unit" where
  "raise_for_status r =
     (if 400 \<le> status_code r \<and> status_code r < 600 then Inl (HTTPError r) else Inr ())"

text \<open>
  Python binds a keyword argument to the parameter of that name when the function
  declares one; if the parameter already has its positional value, the call raises
  \<open>TypeError\<close> before the body runs. Only the other keyword arguments reach
  \<^verbatim>\<open>**kwargs\<close>. Each function of the module is modelled with this check for the
  parameters its \<^verbatim>\<open>def\<close> line names.

  \<^verbatim>\<open>RequestClient.request(self, method, path, *args, **kwargs)\<close>:
  \<^verbatim>\<open>
    url = urljoin(self.server, path)
    kwargs.update(timeout=kwargs.get('timeout', 30))
    response = super().request(method, url, *args, **kwargs)
    response.raise_for_status()
    return response
  \<close>
  The result is the response or the exception, together with the client after the call.
  A keyword named \<^verbatim>\<open>self\<close>, \<^verbatim>\<open>method\<close> or \<^verbatim>\<open>path\<close> collides with a parameter: the
  call raises \<open>TypeError\<close> and the session is not called.
\<close>

definition request ::
  "client \<Rightarrow> string \<Rightarrow> string \<Rightarrow> pyval list \<Rightarrow> pyval dict \<Rightarrow> (error + response) \<times> client" where
  "request self method path args kwargs =
     (if has_key kwargs ''self'' \<or> has_key kwargs ''method'' \<or> has_key kwargs ''path''
      then (Inl TypeError, self)
      else
        (let url = urljoin (server self) path;
             kwargs = dict_set ''timeout'' (dict_get kwargs ''timeout'' (PInt 30)) kwargs;
             call = \<lparr>call_method = method, call_url = url, call_args = args, call_kwargs = kwargs\<rparr>;
             self = self\<lparr>session_calls := session_calls self @ [call]\<rparr>
         in case session self call of
              Inl e \<Rightarrow> (Inl e, self)
            | Inr response \<Rightarrow>
                (case raise_for_status response of
                   Inl e \<Rightarrow> (Inl e, self)
                 | Inr u \<Rightarrow> (Inr response, self))))"

section \<open>The endpoint decorator\<close>

text \<open>
  The converters of an endpoint are annotated \<^verbatim>\<open>Callable[..., str]\<close>: a converter takes
  a call argument and returns a string, or raises.
\<close>

type_synonym converter = "pyval \<Rightarrow> error + string"

text \<open>
  The attributes of an \<^verbatim>\<open>endpoint\<close> instance; \<open>http_method\<close> is the attribute
  \<^verbatim>\<open>method\<close>. The wrapped method takes the client and the response and returns a
  result of type \<open>'r\<close>, or raises.
\<close>

record 'r endpoint =
  http_method :: string
  path_template :: string
  map_args :: "converter list"
  map_kwargs :: "converter dict"
  func :: "(client \<Rightarrow> response \<Rightarrow> error + 'r) option"

subsection \<open>Positional string formatting\<close>

text \<open>
  \<^verbatim>\<open>path_template.format(*args)\<close> is Python's \<^verbatim>\<open>str.format\<close> with positional
  arguments only, all of them strings (the converters' results). The model reads the
  template from left to right, as the interpreter does, so that the first problem met
  decides the exception:
  \<^item> \<^verbatim>\<open>{{\<close> and \<^verbatim>\<open>}}\<close> stand for one brace; a single \<^verbatim>\<open>}\<close> in the text and a
    \<^verbatim>\<open>{\<close> that is never closed raise \<open>ValueError\<close>;
  \<^item> a field \<^verbatim>\<open>{}\<close> takes the next argument (automatic numbering), a field
    \<^verbatim>\<open>{3}\<close> the argument of that index (manual numbering); switching between the two
    raises \<open>ValueError\<close>; an index beyond the arguments raises \<open>IndexError\<close>; any
    other field name is a keyword, and with no keyword arguments raises \<open>KeyError\<close>;
  \<^item> the format specifications \<^verbatim>\<open>{:s}\<close> and the empty one insert the string as it is.
  Conversions (\<^verbatim>\<open>!r\<close>), attribute and index access (\<^verbatim>\<open>{0.real}\<close>, \<^verbatim>\<open>{0[1]}\<close>),
  nested fields, other format specifications and indices of more than 18 digits are
  outside the model: such a field yields \<open>NotModelled\<close>.
\<close>

datatype numbering = AutoInit | AutoNumber nat | ManualNumber

fun split_field :: "string \<Rightarrow> (string \<times> string) option" where
  "split_field [] = None"
| "split_field (c # cs) =
     (if c = CHR ''}'' then Some ([], cs)
      else (case split_field cs of
              None \<Rightarrow> None
            | Some (field, rest) \<Rightarrow> Some (c # field, rest)))"

definition is_digit :: "char \<Rightarrow> bool" where
  "is_digit c = (c \<in> set ''0123456789'')"

definition digit_val :: "char \<Rightarrow> nat" where
  "digit_val c = of_char c - 48"

definition get_integer :: "string \<Rightarrow> nat" where
  "get_integer ds = foldl (\<lambda>acc c. acc * 10 + digit_val c) 0 ds"

definition get_value :: "nat \<Rightarrow> string list \<Rightarrow> error + string" where
  "get_value i args = (if i < length args then Inr (args ! i) else Inl IndexError)"

definition get_field :: "numbering \<Rightarrow> string \<Rightarrow> string list \<Rightarrow> error + string \<times> numbering" where
  "get_field num name args =
     (if name = [] then
        (case num of
           ManualNumber \<Rightarrow> Inl ValueError
         | AutoInit \<Rightarrow> map_sum id (\<lambda>s. (s, AutoNumber 1)) (get_value 0 args)
         | AutoNumber n \<Rightarrow> map_sum id (\<lambda>s. (s, AutoNumber (Suc n))) (get_value n args))
      else if list_all is_digit name then
        (if 18 < length name then Inl NotModelled
         else (case num of
                 AutoNumber n \<Rightarrow> Inl ValueError
               | _ \<Rightarrow> map_sum id (\<lambda>s. (s, ManualNumber)) (get_value (get_integer name) args)))
      else Inl KeyError)"

definition render_field :: "numbering \<Rightarrow> string \<Rightarrow> string list \<Rightarrow> error + string \<times> numbering" where
  "render_field num field args =
     (if list_ex (\<lambda>c. c \<in> set ''{!.['') field then Inl NotModelled
      else
        (let name = takeWhile (\<lambda>c. c \<noteq> CHR '':'') field;
             spec = drop (Suc (length name)) field
         in if spec = [] \<or> spec = ''s'' then get_field num name args
            else Inl NotModelled))"

lemma split_field_shorter: "split_field cs = Some (field, rest) \<Longrightarrow> length rest < Suc (length cs)"
  by (induction cs arbitrary: field) (auto split: if_splits option.splits)

function py_format :: "numbering \<Rightarrow> string \<Rightarrow> string list \<Rightarrow> error + string" where
  "py_format num [] args = Inr []"
| "py_format num (c # cs) args =
     (if c = CHR ''{'' then
        (case cs of
           [] \<Rightarrow> Inl ValueError
         | c' # cs' \<Rightarrow>
             if c' = CHR ''{'' then map_sum id (\<lambda>out. CHR ''{'' # out) (py_format num cs' args)
             else
               (case split_field cs of
                  None \<Rightarrow> Inl ValueError
                | Some (field, rest) \<Rightarrow>
                    (case render_field num field args of
                       Inl e \<Rightarrow> Inl e
                     | Inr (s, num') \<Rightarrow> map_sum id (\<lambda>out. s @ out) (py_format num' rest args))))
      else if c = CHR ''}'' then
        (case cs of
           [] \<Rightarrow> Inl ValueError
         | c' # cs' \<Rightarrow>
             if c' = CHR ''}'' then map_sum id (\<lambda>out. CHR ''}'' # out) (py_format num cs' args)
             else Inl ValueError)
      else map_sum id (\<lambda>out. c # out) (py_format num cs args))"
  by pat_completeness auto
termination
  by (relation "measure (\<lambda>(num, tmpl, args). length tmpl)") (auto simp del: split_field.simps dest: split_field_shorter)

definition format :: "string \<Rightarrow> string list \<Rightarrow> error + string" where
  "format template args = py_format AutoInit template args"

subsection \<open>Construction and decoration\<close>

text \<open>
  \<^verbatim>\<open>endpoint.__init__(self, method, path_template, *args, **kwargs)\<close> stores its
  arguments and sets \<^verbatim>\<open>self.func = None\<close>; a keyword converter named like one of
  its parameters raises \<open>TypeError\<close>.
\<close>

definition endpoint_init ::
  "string \<Rightarrow> string \<Rightarrow> converter list \<Rightarrow> converter dict \<Rightarrow> error + 'r endpoint" where
  "endpoint_init method_arg path_template_arg args kwargs =
     (if has_key kwargs ''self'' \<or> has_key kwargs ''method'' \<or> has_key kwargs ''path_template''
      then Inl TypeError
      else Inr \<lparr>http_method = method_arg, path_template = path_template_arg,
                map_args = args, map_kwargs = kwargs, func = None\<rparr>)"

text \<open>
  The class methods \<^verbatim>\<open>delete\<close>, \<^verbatim>\<open>get\<close>, \<^verbatim>\<open>post\<close> and \<^verbatim>\<open>update\<close> have the
  signature \<^verbatim>\<open>(cls, path_template, *args, **kwargs)\<close> and return
  \<^verbatim>\<open>cls(VERB, path_template, *args, **kwargs)\<close>, with \<^verbatim>\<open>cls\<close> the class \<^verbatim>\<open>endpoint\<close>.
\<close>

definition endpoint_delete :: "string \<Rightarrow> converter list \<Rightarrow> converter dict \<Rightarrow> error + 'r endpoint" where
  "endpoint_delete path_template_arg args kwargs =
     (if has_key kwargs ''cls'' \<or> has_key kwargs ''path_template'' then Inl TypeError
      else endpoint_init ''DELETE'' path_template_arg args kwargs)"

definition endpoint_get :: "string \<Rightarrow> converter list \<Rightarrow> converter dict \<Rightarrow> error + 'r endpoint" where
  "endpoint_get path_template_arg args kwargs =
     (if has_key kwargs ''cls'' \<or> has_key kwargs ''path_template'' then Inl TypeError
      else endpoint_init ''GET'' path_template_arg args kwargs)"

definition endpoint_post :: "string \<Rightarrow> converter list \<Rightarrow> converter dict \<Rightarrow> error + 'r endpoint" where
  "endpoint_post path_template_arg args kwargs =
     (if has_key kwargs ''cls'' \<or> has_key kwargs ''path_template'' then Inl TypeError
      else endpoint_init ''POST'' path_template_arg args kwargs)"

definition endpoint_update :: "string \<Rightarrow> converter list \<Rightarrow> converter dict \<Rightarrow> error + 'r endpoint" where
  "endpoint_update path_template_arg args kwargs =
     (if has_key kwargs ''cls'' \<or> has_key kwargs ''path_template'' then Inl TypeError
      else endpoint_init ''UPDATE'' path_template_arg args kwargs)"

text \<open>
  \<^verbatim>\<open>endpoint.__call__(self, func)\<close> stores the wrapped method in \<^verbatim>\<open>self.func\<close> and
  returns a function that forwards its arguments to \<^verbatim>\<open>self.execute\<close>; a call of the
  decorated method is therefore \<open>execute\<close> on the descriptor as it is then.
\<close>

definition endpoint_call :: "'r endpoint \<Rightarrow> (client \<Rightarrow> response \<Rightarrow> error + 'r) \<Rightarrow> 'r endpoint" where
  "endpoint_call self f = self\<lparr>func := Some f\<rparr>"

subsection \<open>Parsing the call arguments\<close>

text \<open>
  \<^verbatim>\<open>args = (f(v) for f, v in zip(self.map_args, args))\<close>, consumed by the unpacking in
  \<^verbatim>\<open>format(*args)\<close>: the converters run from left to right, before the formatting, and
  the first exception ends the call.
\<close>

fun convert_all :: "converter list \<Rightarrow> pyval list \<Rightarrow> error + string list" where
  "convert_all (f # fs) (v # vs) =
     (case f v of
        Inl e \<Rightarrow> Inl e
      | Inr s \<Rightarrow> (case convert_all fs vs of Inl e \<Rightarrow> Inl e | Inr ss \<Rightarrow> Inr (s # ss)))"
| "convert_all fs vs = Inr []"

text \<open>
  The loop \<^verbatim>\<open>for k, v in ITEMS: if k in self.map_kwargs: params[k] = self.map_kwargs[k](v)
  else: kwargs[k] = v\<close>, over the items it is given.
\<close>

fun parse_items ::
  "converter dict \<Rightarrow> (string \<times> pyval) list \<Rightarrow> string dict \<times> pyval dict \<Rightarrow> error + string dict \<times> pyval dict" where
  "parse_items mk [] (params, kwargs) = Inr (params, kwargs)"
| "parse_items mk ((k, v) # items) (params, kwargs) =
     (case map_of mk k of
        Some f \<Rightarrow>
          (case f v of
             Inl e \<Rightarrow> Inl e
           | Inr s \<Rightarrow> parse_items mk items (dict_set k s params, kwargs))
      | None \<Rightarrow> parse_items mk items (params, dict_set k v kwargs))"

text \<open>
  \<^verbatim>\<open>endpoint._parse_args(self, *args, **kwargs)\<close>:
  \<^verbatim>\<open>
    args = (f(v) for f, v in zip(self.map_args, args))
    path = self.path_template.format(*args)
    params = dict()
    kwargs = dict()
    for k, v in kwargs.items(): ...
    return (path, params, kwargs)
  \<close>
  The assignment \<^verbatim>\<open>kwargs = dict()\<close> rebinds the name of the parameter: the loop that
  follows runs over the items of the new, empty dictionary, and the keyword arguments of
  the call are not read again.
\<close>

definition parse_args ::
  "'r endpoint \<Rightarrow> pyval list \<Rightarrow> pyval dict \<Rightarrow> error + string \<times> string dict \<times> pyval dict" where
  "parse_args self args kwargs =
     (if has_key kwargs ''self'' then Inl TypeError
      else
        (case convert_all (map_args self) args of
           Inl e \<Rightarrow> Inl e
         | Inr args \<Rightarrow>
             (case format (path_template self) args of
                Inl e \<Rightarrow> Inl e
              | Inr path \<Rightarrow>
                  (let params = [];
                       kwargs = []
                   in (case parse_items (map_kwargs self) kwargs (params, kwargs) of
                         Inl e \<Rightarrow> Inl e
                       | Inr (params, kwargs) \<Rightarrow> Inr (path, params, kwargs))))))"

subsection \<open>The decorated call\<close>

text \<open>
  \<^verbatim>\<open>endpoint.execute(self, client, *args, **kwargs)\<close>:
  \<^verbatim>\<open>
    path, params, kwargs = self._parse_args(*args, **kwargs)
    response = client.request(self.method, path, params=params, **kwargs)
    return self.func(client, response)
  \<close>
  The result comes with the client and the descriptor as they are after the call. The
  query parameters travel as the dictionary value of the keyword \<^verbatim>\<open>params\<close>. Calling
  \<^verbatim>\<open>self.func\<close> while it is still \<^verbatim>\<open>None\<close> raises \<open>TypeError\<close>.
\<close>

definition params_value :: "string dict \<Rightarrow> pyval" where
  "params_value params = PDict (map (\<lambda>(k, s). (k, PStr s)) params)"

definition execute ::
  "'r endpoint \<Rightarrow> client \<Rightarrow> pyval list \<Rightarrow> pyval dict \<Rightarrow> (error + 'r) \<times> client \<times> 'r endpoint" where
  "execute self client args kwargs =
     (if has_key kwargs ''self'' \<or> has_key kwargs ''client'' then (Inl TypeError, client, self)
      else
        (case parse_args self args kwargs of
           Inl e \<Rightarrow> (Inl e, client, self)
         | Inr (path, params, kwargs) \<Rightarrow>
             (if has_key kwargs ''self'' \<or> has_key kwargs ''method'' \<or> has_key kwargs ''path''
                 \<or> has_key kwargs ''params''
              then (Inl TypeError, client, self)
              else
                (case request client (http_method self) path [] ((''params'', params_value params) # kwargs) of
                   (Inl e, client) \<Rightarrow> (Inl e, client, self)
                 | (Inr response, client) \<Rightarrow>
                     (case func self of
                        None \<Rightarrow> (Inl TypeError, client, self)
                      | Some f \<Rightarrow> (f client response, client, self))))))"

section \<open>Templates built from slots\<close>

text \<open>
  To speak about "a path template with N slots", a template is assembled from pieces:
  literal text (whose braces are doubled, as \<^verbatim>\<open>str.format\<close> requires), the slots
  \<^verbatim>\<open>{}\<close> and \<^verbatim>\<open>{:s}\<close> of automatic numbering, and the slots \<^verbatim>\<open>{k}\<close> of manual
  numbering, with \<open>k\<close> in decimal. A template is \<open>automatic\<close> when it has no numbered
  slot, and \<open>manual\<close> when all its slots are numbered (with indices the model of
  \<^verbatim>\<open>str.format\<close> covers). \<open>slots\<close> is the number of arguments the template asks for:
  the number of its slots when automatic, one more than its largest index when manual.
  \<open>fill\<close> is the text with each slot replaced by its argument: the next of the remaining
  ones for \<^verbatim>\<open>{}\<close> and \<^verbatim>\<open>{:s}\<close>, the one of index \<open>k\<close> for \<^verbatim>\<open>{k}\<close>.
\<close>

definition digit_char :: "nat \<Rightarrow> char" where
  "digit_char n = ''0123456789'' ! (n mod 10)"

function decimal :: "nat \<Rightarrow> string" where
  "decimal n = (if n < 10 then [digit_char n] else decimal (n div 10) @ [digit_char n])"
  by pat_completeness auto
termination
  by (relation "measure id") auto

declare decimal.simps [simp del]









section \<open>Standard URL joining\<close>








section \<open>Example values\<close>

text \<open>
  The built-in \<^verbatim>\<open>str\<close> as a converter, on the values whose text is modelled (the text
  of a dictionary is not), a client whose session answers every call with a fixed status
  and the requested URL as body, and the endpoint
  \<^verbatim>\<open>endpoint('GET', 'search?limit={}', str, q=str)\<close> wrapped around a method that
  returns the body of the response.
\<close>

definition py_str :: converter where
  "py_str v =
     (case v of
        PNone \<Rightarrow> Inr ''None''
      | PBool b \<Rightarrow> Inr (if b then ''True'' else ''False'')
      | PInt i \<Rightarrow> Inr (if i < 0 then CHR ''-'' # decimal (nat (- i)) else decimal (nat i))
      | PStr s \<Rightarrow> Inr s
      | PDict d \<Rightarrow> Inl NotModelled)"

definition api_client :: "int \<Rightarrow> client" where
  "api_client status =
     \<lparr>server = ''https://api.example/base/'',
      session = (\<lambda>call. Inr \<lparr>status_code = status, content = call_url call\<rparr>),
      session_calls = []\<rparr>"

definition search_endpoint :: "string endpoint" where
  "search_endpoint =
     endpoint_call
       \<lparr>http_method = ''GET'', path_template = ''search?limit={}'',
        map_args = [py_str], map_kwargs = [(''q'', py_str)], func = None\<rparr>
       (\<lambda>client response. Inr (content response))"

text \<open>
  A converter that raises on every argument, and the search endpoint with it as second
  positional converter.
\<close>

definition failing :: converter where
  "failing v = Inl (Raised ''converter'')"

definition failing_endpoint :: "string endpoint" where
  "failing_endpoint = search_endpoint\<lparr>map_args := [py_str, failing]\<rparr>"


section \<open>Facts about the base client\<close>

lemma request_collision:
  "has_key k ''self'' \<or> has_key k ''method'' \<or> has_key k ''path'' \<Longrightarrow>
   request c m p a k = (Inl TypeError, c)"
  by (simp add: request_def)

lemma request_unfold:
  assumes "\<not> has_key k ''self''" and "\<not> has_key k ''method''" and "\<not> has_key k ''path''"
  shows "request c m p a k =
     (let call = \<lparr>call_method = m, call_url = urljoin (server c) p, call_args = a,
                  call_kwargs = dict_set ''timeout'' (dict_get k ''timeout'' (PInt 30)) k\<rparr>
      in (case session c call of
            Inl e \<Rightarrow> Inl e
          | Inr r \<Rightarrow> if 400 \<le> status_code r \<and> status_code r < 600 then Inl (HTTPError r) else Inr r,
          c\<lparr>session_calls := session_calls c @ [call]\<rparr>))"
  using assms by (simp add: request_def raise_for_status_def Let_def split: sum.splits)

lemma request_calls:
  assumes "\<not> has_key k ''self''" and "\<not> has_key k ''method''" and "\<not> has_key k ''path''"
  shows "session_calls (snd (request c m p a k)) =
     session_calls c @ [\<lparr>call_method = m, call_url = urljoin (server c) p, call_args = a,
        call_kwargs = dict_set ''timeout'' (dict_get k ''timeout'' (PInt 30)) k\<rparr>]"
  by (simp add: request_unfold [OF assms] Let_def)

lemma map_of_dict_set: "map_of (dict_set k v d) = (map_of d)(k \<mapsto> v)"
  by (induction d) (auto simp: fun_eq_iff)

lemma dict_set_same: "map_of d k = Some v \<Longrightarrow> dict_set k v d = d"
  by (induction d) (auto split: if_splits)







text \<open>
  C2, as the code has it. For a call whose keywords do not collide with the parameters
  of \<open>request\<close>: when the session answers the call with a response \<open>r\<close>, \<open>request\<close>
  raises \<open>HTTPError\<close> carrying \<open>r\<close> (its status and body) exactly when the status code of
  \<open>r\<close> is in [400, 599], and returns \<open>r\<close> unchanged for every other status code; in
  particular it returns \<open>r\<close> unchanged for every status code in [200, 299].
\<close>

theorem request_status:
  assumes "\<not> has_key kwargs ''self''" and "\<not> has_key kwargs ''method''"
      and "\<not> has_key kwargs ''path''"
      and "session self (last (session_calls (snd (request self verb path args kwargs)))) = Inr r"
  shows "fst (request self verb path args kwargs) =
           (if 400 \<le> status_code r \<and> status_code r < 600 then Inl (HTTPError r) else Inr r)
         \<and> (200 \<le> status_code r \<and> status_code r \<le> 299 \<longrightarrow>
              fst (request self verb path args kwargs) = Inr r)"
proof -
  note k = assms(1-3)
  from assms(4) have "session self
      \<lparr>call_method = verb, call_url = urljoin (server self) path, call_args = args,
        call_kwargs = dict_set ''timeout'' (dict_get kwargs ''timeout'' (PInt 30)) kwargs\<rparr> = Inr r"
    by (simp add: request_calls [OF k])
  then show ?thesis
    by (simp add: request_unfold [OF k] Let_def)
qed

theorem request_status_witness:
  "\<not> has_key ([] :: pyval dict) ''self'' \<and> \<not> has_key ([] :: pyval dict) ''method''
   \<and> \<not> has_key ([] :: pyval dict) ''path''
   \<and> session (api_client 404)
     (last (session_calls (snd (request (api_client 404) ''GET'' ''items'' [] []))))
     = Inr \<lparr>status_code = 404, content = ''https://api.example/base/items''\<rparr>
   \<and> fst (request (api_client 404) ''GET'' ''items'' [] []) =
       Inl (HTTPError \<lparr>status_code = 404, content = ''https://api.example/base/items''\<rparr>)
   \<and> session (api_client 200)
     (last (session_calls (snd (request (api_client 200) ''GET'' ''items'' [] []))))
     = Inr \<lparr>status_code = 200, content = ''https://api.example/base/items''\<rparr>
   \<and> fst (request (api_client 200) ''GET'' ''items'' [] []) =
       Inr \<lparr>status_code = 200, content = ''https://api.example/base/items''\<rparr>"
proof -
  have k: "\<not> has_key ([] :: pyval dict) ''self''" "\<not> has_key ([] :: pyval dict) ''method''"
    "\<not> has_key ([] :: pyval dict) ''path''"
    by (simp_all add: has_key_def)
  have h: "session (api_client 404)
      (last (session_calls (snd (request (api_client 404) ''GET'' ''items'' [] []))))
     = Inr \<lparr>status_code = 404, content = ''https://api.example/base/items''\<rparr>"
    by (simp add: request_calls [OF k] api_client_def urljoin_def endswith_sep_def)
  have g: "session (api_client 200)
      (last (session_calls (snd (request (api_client 200) ''GET'' ''items'' [] []))))
     = Inr \<lparr>status_code = 200, content = ''https://api.example/base/items''\<rparr>"
    by (simp add: request_calls [OF k] api_client_def urljoin_def endswith_sep_def)
  show ?thesis using k h g request_status [OF k h] request_status [OF k g] by simp
qed

text \<open>
  C2 as the specification states it fails: the status code 304 lies outside [200, 299],
  and \<open>request\<close> returns the response instead of raising.
\<close>

theorem request_304_returned:
  "\<not> (200 \<le> (304::int) \<and> (304::int) \<le> 299)
   \<and> fst (request (api_client 304) ''GET'' ''items'' [] []) =
       Inr \<lparr>status_code = 304, content = ''https://api.example/base/items''\<rparr>"
  by (simp add: request_unfold has_key_def api_client_def urljoin_def endswith_sep_def Let_def)




text \<open>
  C10. For a call whose keywords do not collide with the parameters of \<open>request\<close> and a
  path that begins with a slash, the URL that \<open>request\<close> hands to the session is the path
  alone: the configured server is dropped, as the path join of the operating system does
  with an absolute second component.
\<close>

theorem request_url_leading_slash:
  assumes "\<not> has_key kwargs ''self''" and "\<not> has_key kwargs ''method''"
      and "\<not> has_key kwargs ''path''"
      and "startswith_sep path"
  shows "call_url (last (session_calls (snd (request self verb path args kwargs)))) = path"
  using assms(4) by (simp add: request_calls [OF assms(1-3)] urljoin_def)

theorem request_url_leading_slash_witness:
  "\<not> has_key ([] :: pyval dict) ''self'' \<and> \<not> has_key ([] :: pyval dict) ''method''
   \<and> \<not> has_key ([] :: pyval dict) ''path''
   \<and> startswith_sep ''/items''
   \<and> call_url (last (session_calls (snd (request (api_client 200) ''GET'' ''/items'' [] []))))
       = ''/items''"
proof -
  have k: "\<not> has_key ([] :: pyval dict) ''self''" "\<not> has_key ([] :: pyval dict) ''method''"
    "\<not> has_key ([] :: pyval dict) ''path''"
    by (simp_all add: has_key_def)
  have h: "startswith_sep ''/items''" by simp
  show ?thesis
    using k h request_url_leading_slash [OF k h, of "api_client 200" "''GET''" "[]"] by simp
qed

text \<open>
  C5. For a call whose keywords do not collide with the parameters of \<open>request\<close>: the
  keyword \<^verbatim>\<open>timeout\<close> that \<open>request\<close> passes to the session is the caller's value when
  the caller gave one, whatever it is, and 30 otherwise. With no timeout from the caller
  the keyword arguments passed are the caller's with \<^verbatim>\<open>timeout=30\<close> added; with one
  they are the caller's, unchanged.
\<close>

theorem request_timeout:
  assumes "\<not> has_key kwargs ''self''" and "\<not> has_key kwargs ''method''"
      and "\<not> has_key kwargs ''path''"
  shows "map_of (call_kwargs (last (session_calls (snd (request self verb path args kwargs))))) ''timeout''
     = Some (case map_of kwargs ''timeout'' of None \<Rightarrow> PInt 30 | Some v \<Rightarrow> v)
   \<and> (map_of kwargs ''timeout'' = None \<longrightarrow>
        call_kwargs (last (session_calls (snd (request self verb path args kwargs))))
          = dict_set ''timeout'' (PInt 30) kwargs)
   \<and> (map_of kwargs ''timeout'' \<noteq> None \<longrightarrow>
        call_kwargs (last (session_calls (snd (request self verb path args kwargs)))) = kwargs)"
  by (auto simp: request_calls [OF assms] map_of_dict_set dict_get_def dict_set_same)

theorem request_timeout_witness:
  "\<not> has_key [(''timeout'', PNone)] ''self'' \<and> \<not> has_key [(''timeout'', PNone)] ''method''
   \<and> \<not> has_key [(''timeout'', PNone)] ''path''
   \<and> map_of [(''timeout'', PNone)] ''timeout'' \<noteq> None
   \<and> call_kwargs (last (session_calls
        (snd (request (api_client 200) ''GET'' ''items'' [] [(''timeout'', PNone)]))))
       = [(''timeout'', PNone)]
   \<and> \<not> has_key ([] :: pyval dict) ''self'' \<and> \<not> has_key ([] :: pyval dict) ''method''
   \<and> \<not> has_key ([] :: pyval dict) ''path''
   \<and> map_of ([] :: pyval dict) ''timeout'' = None
   \<and> call_kwargs (last (session_calls (snd (request (api_client 200) ''GET'' ''items'' [] []))))
       = [(''timeout'', PInt 30)]"
proof -
  have k: "\<not> has_key ([] :: pyval dict) ''self''" "\<not> has_key ([] :: pyval dict) ''method''"
    "\<not> has_key ([] :: pyval dict) ''path''"
    by (simp_all add: has_key_def)
  have t: "\<not> has_key [(''timeout'', PNone)] ''self''" "\<not> has_key [(''timeout'', PNone)] ''method''"
    "\<not> has_key [(''timeout'', PNone)] ''path''"
    by (simp_all add: has_key_def)
  show ?thesis
    using k t
      request_timeout [OF t, of "api_client 200" "''GET''" "''items''" "[]"]
      request_timeout [OF k, of "api_client 200" "''GET''" "''items''" "[]"]
    by simp
qed

section \<open>Facts about formatting and argument parsing\<close>

























lemma parse_items_empty: "parse_items mk [] ([], []) = Inr ([], [])"
  by simp

lemma parse_args_unfold:
  "parse_args self args kwargs =
     (if has_key kwargs ''self'' then Inl TypeError
      else
        (case convert_all (map_args self) args of
           Inl e \<Rightarrow> Inl e
         | Inr strs \<Rightarrow>
             (case format (path_template self) strs of
                Inl e \<Rightarrow> Inl e
              | Inr path \<Rightarrow> Inr (path, [], []))))"
  by (simp add: parse_args_def Let_def split: sum.splits)

lemma has_key_Nil: "\<not> has_key [] k"
  by (simp add: has_key_def)

lemma execute_unfold:
  "execute self client args kwargs =
     (if has_key kwargs ''self'' \<or> has_key kwargs ''client'' then (Inl TypeError, client, self)
      else
        (case parse_args self args kwargs of
           Inl e \<Rightarrow> (Inl e, client, self)
         | Inr (path, params, kw) \<Rightarrow>
             (case request client (http_method self) path [] [(''params'', PDict [])] of
                (Inl e, client') \<Rightarrow> (Inl e, client', self)
              | (Inr response, client') \<Rightarrow>
                  (case func self of
                     None \<Rightarrow> (Inl TypeError, client', self)
                   | Some f \<Rightarrow> (f client' response, client', self)))))"
  by (auto simp: execute_def parse_args_unfold has_key_Nil params_value_def
           split: sum.splits prod.splits option.splits)

lemma convert_all_length:
  "convert_all fs vs = Inr strs \<Longrightarrow> length strs = min (length fs) (length vs)"
  by (induction fs vs arbitrary: strs rule: convert_all.induct) (auto split: sum.splits)

lemma convert_all_nth:
  "convert_all fs vs = Inr strs \<Longrightarrow> i < length strs \<Longrightarrow> (fs ! i) (vs ! i) = Inr (strs ! i)"
proof (induction fs vs arbitrary: strs i rule: convert_all.induct)
  case (1 f fs v vs)
  then show ?case by (cases i) (auto split: sum.splits)
qed simp_all

lemma convert_all_extra:
  "length fs \<le> length vs \<Longrightarrow> convert_all fs (vs @ extra) = convert_all fs vs"
  by (induction fs vs rule: convert_all.induct) (simp_all split: sum.splits)

lemma convert_all_first_error:
  "i < length fs \<Longrightarrow> i < length vs \<Longrightarrow> (fs ! i) (vs ! i) = Inl e \<Longrightarrow>
   (\<And>j. j < i \<Longrightarrow> \<exists>s. (fs ! j) (vs ! j) = Inr s) \<Longrightarrow>
   convert_all fs vs = Inl e"
proof (induction fs vs arbitrary: i rule: convert_all.induct)
  case (1 f fs v vs)
  show ?case
  proof (cases i)
    case 0
    with 1 show ?thesis by simp
  next
    case (Suc k)
    from "1.prems"(4) [of 0] Suc obtain s where s: "f v = Inr s" by auto
    have "convert_all fs vs = Inl e"
    proof (rule "1.IH" [OF s, of k])
      show "k < length fs" "k < length vs" using "1.prems" Suc by simp_all
      show "(fs ! k) (vs ! k) = Inl e" using "1.prems" Suc by simp
      show "\<exists>s. (fs ! j) (vs ! j) = Inr s" if "j < k" for j
        using "1.prems"(4) [of "Suc j"] that Suc by simp
    qed
    with s show ?thesis by simp
  qed
qed simp_all

text \<open>
  C1, evaluated on the code. The endpoint has the named converter \<^verbatim>\<open>q=str\<close>; the
  decorated method is called with \<^verbatim>\<open>q='x'\<close> and \<^verbatim>\<open>headers={'X-Id': '7'}\<close>. The code
  returns empty query parameters and empty passthrough options, and the session is called
  with \<^verbatim>\<open>params={}\<close> and without \<^verbatim>\<open>headers\<close>: both keyword arguments are lost,
  where the claim puts \<^verbatim>\<open>q\<close> into the query parameters and forwards \<^verbatim>\<open>headers\<close>.
\<close>

theorem parse_args_keywords_dropped:
  "parse_args search_endpoint [PInt 5]
       [(''q'', PStr ''x''), (''headers'', PDict [(''X-Id'', PStr ''7'')])]
     = Inr (''search?limit=5'', [], [])
   \<and> session_calls (fst (snd (execute search_endpoint (api_client 200) [PInt 5]
       [(''q'', PStr ''x''), (''headers'', PDict [(''X-Id'', PStr ''7'')])])))
     = [\<lparr>call_method = ''GET'', call_url = ''https://api.example/base/search?limit=5'',
         call_args = [], call_kwargs = [(''params'', PDict []), (''timeout'', PInt 30)]\<rparr>]"
  by (simp add: execute_unfold parse_args_unfold search_endpoint_def endpoint_call_def has_key_def py_str_def
        decimal.simps digit_char_def format_def render_field_def get_field_def get_value_def
        request_unfold api_client_def Let_def urljoin_def endswith_sep_def dict_get_def)



text \<open>
  C6. The positional converters are applied in order, the one of index \<open>i\<close> to the
  argument of index \<open>i\<close>, up to the shorter of the two lists: the strings that are
  formatted into the path are exactly these results; the first converter that raises
  ends the call with its exception; and positional arguments beyond the converters do
  not change the result at all, so they are neither converted nor substituted.
\<close>

theorem converters_applied_in_order:
  "(length (map_args self) \<le> length args \<longrightarrow>
      parse_args self (args @ extra) kwargs = parse_args self args kwargs)
   \<and> (parse_args self args kwargs = Inr (path, params, kw) \<longrightarrow>
      (\<exists>strs. length strs = min (length (map_args self)) (length args)
         \<and> (\<forall>i < length strs. (map_args self ! i) (args ! i) = Inr (strs ! i))
         \<and> format (path_template self) strs = Inr path))
   \<and> (\<not> has_key kwargs ''self'' \<and> i < length (map_args self) \<and> i < length args
        \<and> (\<forall>j < i. \<exists>s. (map_args self ! j) (args ! j) = Inr s)
        \<and> (map_args self ! i) (args ! i) = Inl e \<longrightarrow>
      parse_args self args kwargs = Inl e)"
proof (intro conjI impI)
  assume "length (map_args self) \<le> length args"
  then show "parse_args self (args @ extra) kwargs = parse_args self args kwargs"
    by (simp add: parse_args_unfold convert_all_extra)
next
  assume ok: "parse_args self args kwargs = Inr (path, params, kw)"
  then obtain strs where c: "convert_all (map_args self) args = Inr strs"
    and f: "format (path_template self) strs = Inr path"
    by (auto simp: parse_args_unfold split: if_splits sum.splits)
  have "length strs = min (length (map_args self)) (length args)"
    using c by (rule convert_all_length)
  moreover have "\<forall>i < length strs. (map_args self ! i) (args ! i) = Inr (strs ! i)"
    using c by (simp add: convert_all_nth)
  ultimately show "\<exists>strs. length strs = min (length (map_args self)) (length args)
         \<and> (\<forall>i < length strs. (map_args self ! i) (args ! i) = Inr (strs ! i))
         \<and> format (path_template self) strs = Inr path"
    using f by blast
next
  assume a: "\<not> has_key kwargs ''self'' \<and> i < length (map_args self) \<and> i < length args
        \<and> (\<forall>j < i. \<exists>s. (map_args self ! j) (args ! j) = Inr s)
        \<and> (map_args self ! i) (args ! i) = Inl e"
  then have "convert_all (map_args self) args = Inl e"
    by (intro convert_all_first_error [of i]) auto
  with a show "parse_args self args kwargs = Inl e"
    by (simp add: parse_args_unfold)
qed

theorem converters_applied_in_order_witness:
  "length (map_args search_endpoint) \<le> length [PInt 5]
   \<and> parse_args search_endpoint ([PInt 5] @ [PStr ''extra'']) [] = Inr (''search?limit=5'', [], [])
   \<and> (\<exists>strs. length strs = 1
         \<and> (map_args search_endpoint ! 0) ([PInt 5, PStr ''extra''] ! 0) = Inr (strs ! 0)
         \<and> format (path_template search_endpoint) strs = Inr ''search?limit=5'')
   \<and> (map_args failing_endpoint ! 0) ([PInt 5, PInt 6] ! 0) = Inr ''5''
   \<and> (map_args failing_endpoint ! 1) ([PInt 5, PInt 6] ! 1) = Inl (Raised ''converter'')
   \<and> parse_args failing_endpoint [PInt 5, PInt 6] [] = Inl (Raised ''converter'')"
proof -
  have l: "length (map_args search_endpoint) = 1"
    by (simp add: search_endpoint_def endpoint_call_def)
  have p: "parse_args search_endpoint [PInt 5] [] = Inr (''search?limit=5'', [], [])"
    by (simp add: parse_args_unfold search_endpoint_def endpoint_call_def has_key_def py_str_def
        decimal.simps digit_char_def format_def render_field_def get_field_def get_value_def)
  have q: "parse_args search_endpoint ([PInt 5] @ [PStr ''extra'']) [] = Inr (''search?limit=5'', [], [])"
    using converters_applied_in_order
      [of search_endpoint "[PInt 5]" "[PStr ''extra'']" "[]" "''search?limit=5''" "[]" "[]" 0 undefined]
      l p by simp
  have ex: "\<exists>strs. length strs = 1
         \<and> (map_args search_endpoint ! 0) ([PInt 5, PStr ''extra''] ! 0) = Inr (strs ! 0)
         \<and> format (path_template search_endpoint) strs = Inr ''search?limit=5''"
    using converters_applied_in_order
      [of search_endpoint "[PInt 5, PStr ''extra'']" "[]" "[]" "''search?limit=5''" "[]" "[]" 0 undefined]
      l q by auto
  have f0: "(map_args failing_endpoint ! 0) ([PInt 5, PInt 6] ! 0) = Inr ''5''"
    by (simp add: failing_endpoint_def py_str_def decimal.simps digit_char_def)
  have f1: "(map_args failing_endpoint ! 1) ([PInt 5, PInt 6] ! 1) = Inl (Raised ''converter'')"
    by (simp add: failing_endpoint_def failing_def)
  have k: "\<not> has_key ([] :: pyval dict) ''self''" by (simp add: has_key_def)
  have lf: "length (map_args failing_endpoint) = 2" by (simp add: failing_endpoint_def)
  have e: "parse_args failing_endpoint [PInt 5, PInt 6] [] = Inl (Raised ''converter'')"
    using converters_applied_in_order
      [of failing_endpoint "[PInt 5, PInt 6]" "[]" "[]" "[]" "[]" "[]" 1 "Raised ''converter''"]
      f0 f1 k lf by simp
  show ?thesis using l q ex f0 f1 e by simp
qed

text \<open>
  C7. When the arguments parse and the request of the base client returns a response,
  the decorated call returns exactly what the wrapped method returns for the client and
  that response. The wrapped method receives these two arguments only; the call
  arguments reach it in no other way.
\<close>

theorem wrapped_method_gets_client_and_response:
  assumes "\<not> has_key kwargs ''self''" and "\<not> has_key kwargs ''client''"
      and "parse_args self args kwargs = Inr (path, params, kw)"
      and "request client (http_method self) path [] ((''params'', params_value params) # kw)
             = (Inr response, client')"
      and "func self = Some f"
  shows "execute self client args kwargs = (f client' response, client', self)"
proof -
  from assms(3) have "params = []" "kw = []"
    by (auto simp: parse_args_unfold split: if_splits sum.splits)
  with assms show ?thesis
    by (simp add: execute_unfold params_value_def)
qed

theorem wrapped_method_gets_client_and_response_witness:
  "\<not> has_key ([] :: pyval dict) ''self'' \<and> \<not> has_key ([] :: pyval dict) ''client''
   \<and> parse_args search_endpoint [PInt 5] [] = Inr (''search?limit=5'', [], [])
   \<and> request (api_client 200) (http_method search_endpoint) ''search?limit=5'' []
         ((''params'', params_value []) # []) =
       (Inr \<lparr>status_code = 200, content = ''https://api.example/base/search?limit=5''\<rparr>,
        (api_client 200)\<lparr>session_calls :=
           [\<lparr>call_method = ''GET'', call_url = ''https://api.example/base/search?limit=5'',
             call_args = [], call_kwargs = [(''params'', PDict []), (''timeout'', PInt 30)]\<rparr>]\<rparr>)
   \<and> func search_endpoint = Some (\<lambda>client response. Inr (content response))
   \<and> execute search_endpoint (api_client 200) [PInt 5] [] =
       (Inr ''https://api.example/base/search?limit=5'',
        (api_client 200)\<lparr>session_calls :=
           [\<lparr>call_method = ''GET'', call_url = ''https://api.example/base/search?limit=5'',
             call_args = [], call_kwargs = [(''params'', PDict []), (''timeout'', PInt 30)]\<rparr>]\<rparr>,
        search_endpoint)"
proof -
  have k: "\<not> has_key ([] :: pyval dict) ''self''" "\<not> has_key ([] :: pyval dict) ''client''"
    by (simp_all add: has_key_def)
  have p: "parse_args search_endpoint [PInt 5] [] = Inr (''search?limit=5'', [], [])"
    by (simp add: parse_args_unfold search_endpoint_def endpoint_call_def has_key_def py_str_def
        decimal.simps digit_char_def format_def render_field_def get_field_def get_value_def)
  have r: "request (api_client 200) (http_method search_endpoint) ''search?limit=5'' []
         ((''params'', params_value []) # []) =
       (Inr \<lparr>status_code = 200, content = ''https://api.example/base/search?limit=5''\<rparr>,
        (api_client 200)\<lparr>session_calls :=
           [\<lparr>call_method = ''GET'', call_url = ''https://api.example/base/search?limit=5'',
             call_args = [], call_kwargs = [(''params'', PDict []), (''timeout'', PInt 30)]\<rparr>]\<rparr>)"
    by (simp add: request_unfold has_key_def api_client_def Let_def urljoin_def endswith_sep_def
        dict_get_def params_value_def search_endpoint_def endpoint_call_def)
  have f: "func search_endpoint = Some (\<lambda>client response. Inr (content response))"
    by (simp add: search_endpoint_def endpoint_call_def)
  show ?thesis
    using k p r f wrapped_method_gets_client_and_response [OF k p r f] by simp
qed

text \<open>
  C8, as the code has it. Unless a keyword converter is named \<^verbatim>\<open>cls\<close>, each
  convenience constructor equals the full constructor with the verb fixed: \<^verbatim>\<open>get\<close>
  with GET, \<^verbatim>\<open>post\<close> with POST, \<^verbatim>\<open>delete\<close> with DELETE, \<^verbatim>\<open>update\<close> with UPDATE.
\<close>

theorem convenience_constructors:
  assumes "\<not> has_key kwargs ''cls''"
  shows "(endpoint_get t args kwargs :: error + 'r endpoint) = endpoint_init ''GET'' t args kwargs
       \<and> (endpoint_post t args kwargs :: error + 'r endpoint) = endpoint_init ''POST'' t args kwargs
       \<and> (endpoint_delete t args kwargs :: error + 'r endpoint) = endpoint_init ''DELETE'' t args kwargs
       \<and> (endpoint_update t args kwargs :: error + 'r endpoint) = endpoint_init ''UPDATE'' t args kwargs"
  using assms
  by (simp add: endpoint_get_def endpoint_post_def endpoint_delete_def endpoint_update_def
        endpoint_init_def)

theorem convenience_constructors_witness:
  "\<not> has_key [(''q'', py_str)] ''cls''
   \<and> (endpoint_get ''search?limit={}'' [py_str] [(''q'', py_str)] :: error + string endpoint) =
       Inr \<lparr>http_method = ''GET'', path_template = ''search?limit={}'',
            map_args = [py_str], map_kwargs = [(''q'', py_str)], func = None\<rparr>"
proof -
  have h: "\<not> has_key [(''q'', py_str)] ''cls''" by (simp add: has_key_def)
  show ?thesis
    using h convenience_constructors [where ?'r = string, OF h, of "''search?limit={}''" "[py_str]"]
    by (simp add: endpoint_init_def has_key_def)
qed

text \<open>
  C8 as the specification states it fails for a keyword converter named \<^verbatim>\<open>cls\<close>:
  \<^verbatim>\<open>endpoint.get('items', cls=str)\<close> raises \<open>TypeError\<close>, because \<^verbatim>\<open>cls\<close> is the
  first parameter of the class method, while \<^verbatim>\<open>endpoint('GET', 'items', cls=str)\<close>
  builds the descriptor.
\<close>

theorem get_rejects_cls_keyword:
  "(endpoint_get ''items'' [] [(''cls'', py_str)] :: error + string endpoint) = Inl TypeError
   \<and> (endpoint_init ''GET'' ''items'' [] [(''cls'', py_str)] :: error + string endpoint) =
       Inr \<lparr>http_method = ''GET'', path_template = ''items'',
            map_args = [], map_kwargs = [(''cls'', py_str)], func = None\<rparr>"
  by (simp add: endpoint_get_def endpoint_init_def has_key_def)

text \<open>
  C9. A call of the decorated method leaves the descriptor as it was, whatever the
  arguments and whatever the outcome: verb, path template, converters and wrapped
  method are the same after the call, and nothing of the call is stored on it.
\<close>

theorem descriptor_unchanged_by_call:
  "snd (snd (execute self client args kwargs)) = self"
  by (simp add: execute_unfold split: sum.splits prod.splits option.splits)

end
